theory Spec2Isabelle
  imports Main
begin

section \<open>The CSV worksheet restructurer of \<^verbatim>\<open>import_csv_to_json/src/App.js\<close>\<close>

text \<open>
  The development embeds \<^verbatim>\<open>question_types\<close>, \<^verbatim>\<open>questionnaire_exists\<close>,
  \<^verbatim>\<open>questions_responses\<close> and \<^verbatim>\<open>json_restructure\<close> of \<^verbatim>\<open>App.js\<close>. The DOM and
  download code of the file is not modelled.

  A JavaScript string is a \<^typ>\<open>string\<close>: one \<^typ>\<open>char\<close> stands for one UTF-16 code unit
  below 256. An exception is a value: every exception these functions can throw is the
  engine's \<^verbatim>\<open>TypeError\<close> for reading a property of \<^verbatim>\<open>undefined\<close>, whose message is
  engine text about the expression and carries no data of the worksheet.
\<close>

subsection \<open>Strings: \<^verbatim>\<open>String.prototype.split\<close> and \<^verbatim>\<open>String.prototype.trim\<close>\<close>

datatype error = TypeError

text \<open>
  \<^verbatim>\<open>s.split(sep)\<close> for a separator of one code unit: the pieces between the occurrences of
  the separator, in order. The empty string gives one empty piece, so the result is never
  the empty array. (The second case of the inner \<^verbatim>\<open>case\<close> is the only one that occurs; the
  first makes the function total.)
\<close>

fun js_split :: "char \<Rightarrow> string \<Rightarrow> string list" where
  "js_split sep [] = [[]]"
| "js_split sep (c # cs) =
     (if c = sep then [] # js_split sep cs
      else (case js_split sep cs of
              [] \<Rightarrow> [[c]]
            | seg # segs \<Rightarrow> (c # seg) # segs))"

text \<open>
  The code units that \<^verbatim>\<open>trim\<close> strips: WhiteSpace and LineTerminator of ECMAScript, below 256
  (TAB, LF, VT, FF, CR, SP, NBSP).
\<close>

definition is_whitespace :: "char \<Rightarrow> bool" where
  "is_whitespace c \<longleftrightarrow>
     c \<in> {CHR 0x09, CHR 0x0A, CHR 0x0B, CHR 0x0C, CHR 0x0D, CHR 0x20, CHR 0xA0}"

definition js_trim :: "string \<Rightarrow> string" where
  "js_trim s = rev (dropWhile is_whitespace (rev (dropWhile is_whitespace s)))"

subsection \<open>Data\<close>

text \<open>
  A row as Papa Parse delivers it with \<^verbatim>\<open>header: true\<close>: an object keyed by the header names.
  The two columns that may be missing from a row are optional: \<open>None\<close> is the absent key,
  which reads as \<^verbatim>\<open>undefined\<close>.
\<close>

record row =
  Questionnaire_Name :: string
  Questionnaire_Abbreviation :: string
  Question_Group_Instruction :: "string option"
  Question :: string
  Question_Abbreviation :: string
  Response_Type :: string
  Response_Options :: "string option"

text \<open>The object pushed onto \<^verbatim>\<open>response_json\<close>, with its keys \<^verbatim>\<open>text\<close> and \<^verbatim>\<open>value\<close>.\<close>

record response_option =
  opt_text :: string
  opt_value :: string

text \<open>
  What a lookup in \<^verbatim>\<open>question_types\<close> evaluates to: \<^verbatim>\<open>undefined\<close>, one of the table's
  strings, or a member that the object literal inherits from \<^verbatim>\<open>Object.prototype\<close>
  (a function or object, named here by its key).
\<close>

datatype type_value = TUndefined | TString string | TInherited string

text \<open>
  The object built by \<^verbatim>\<open>questions_responses\<close>, keys \<^verbatim>\<open>title\<close>, \<^verbatim>\<open>type\<close>, \<^verbatim>\<open>rows\<close>,
  \<^verbatim>\<open>variable_name\<close>. For \<open>q_rows\<close>, \<open>None\<close> is an object without the key \<^verbatim>\<open>rows\<close>, and
  \<open>Some v\<close> an object whose key \<^verbatim>\<open>rows\<close> holds the value \<open>v\<close> of the variable
  \<^verbatim>\<open>response_json\<close>: \<open>Some xs\<close> an array, \<open>None\<close> \<^verbatim>\<open>undefined\<close>.
\<close>

record question =
  q_title :: string
  q_type :: type_value
  q_rows :: "response_option list option option"
  q_variable_name :: string

record questionnaire =
  activity_type :: string
  mode :: string
  frequency :: string
  title :: string
  questions :: "question list"

subsection \<open>\<^verbatim>\<open>question_types\<close>\<close>

text \<open>The own properties of the object literal.\<close>

definition question_types :: "string \<rightharpoonup> string" where
  "question_types =
     [''Single Choice'' \<mapsto> ''single_sel'',
      ''Image'' \<mapsto> ''image_sel'',
      ''Multiple Choice'' \<mapsto> ''multi_sel'',
      ''Text Entry'' \<mapsto> ''text'']"

text \<open>
  The properties of \<^verbatim>\<open>Object.prototype\<close>, which an object literal has as its prototype
  (ECMAScript 20.1.3 and B.2.2).
\<close>

definition object_prototype_keys :: "string list" where
  "object_prototype_keys =
     [''constructor'', ''hasOwnProperty'', ''isPrototypeOf'', ''propertyIsEnumerable'',
      ''toLocaleString'', ''toString'', ''valueOf'', ''__proto__'',
      ''__defineGetter__'', ''__defineSetter__'', ''__lookupGetter__'', ''__lookupSetter__'']"

text \<open>
  \<^verbatim>\<open>question_types[key]\<close>: the own property if there is one, else the property of the
  prototype, else \<^verbatim>\<open>undefined\<close>. The read never throws.
\<close>

definition get_property :: "(string \<rightharpoonup> string) \<Rightarrow> string \<Rightarrow> type_value" where
  "get_property obj key =
     (case obj key of
        Some v \<Rightarrow> TString v
      | None \<Rightarrow> if key \<in> set object_prototype_keys then TInherited key else TUndefined)"

subsection \<open>\<^verbatim>\<open>questionnaire_exists\<close> and \<^verbatim>\<open>questions_responses\<close>\<close>

text \<open>
  \<^verbatim>\<open>questionnaire_exists\<close> is the predicate of \<^verbatim>\<open>dbs_json.find\<close>; its \<^verbatim>\<open>this\<close> is the
  second argument of \<^verbatim>\<open>find\<close>, the computed title. Both sides of \<^verbatim>\<open>==\<close> are strings.
\<close>

definition questionnaire_exists :: "string \<Rightarrow> questionnaire \<Rightarrow> bool" where
  "questionnaire_exists this questionnaire_array \<longleftrightarrow> this = title questionnaire_array"

text \<open>
  \<^verbatim>\<open>test\<close> is \<^verbatim>\<open>responses.length\<close>, a number: truthy when it is not 0.
\<close>

definition questions_responses ::
  "nat \<Rightarrow> string \<Rightarrow> (string \<rightharpoonup> string) \<Rightarrow> row \<Rightarrow> response_option list option \<Rightarrow> question"
where
  "questions_responses test question_title qtypes file_json_array_i response_json =
     (if test \<noteq> 0 then
        \<lparr>q_title = question_title,
         q_type = get_property qtypes (Response_Type file_json_array_i),
         q_rows = Some response_json,
         q_variable_name = Question_Abbreviation file_json_array_i\<rparr>
      else
        \<lparr>q_title = question_title,
         q_type = get_property qtypes (Response_Type file_json_array_i),
         q_rows = None,
         q_variable_name = Question_Abbreviation file_json_array_i\<rparr>)"

subsection \<open>\<^verbatim>\<open>json_restructure\<close>\<close>

text \<open>Line 54: the title of the row's questionnaire.\<close>

definition questionnaire_title :: "row \<Rightarrow> string" where
  "questionnaire_title r =
     (if Questionnaire_Name r = Questionnaire_Abbreviation r then Questionnaire_Name r
      else Questionnaire_Abbreviation r @ '' ('' @ Questionnaire_Name r @ '')'')"

text \<open>Lines 57 to 60: the split on newlines, replaced by the split on commas.\<close>

definition split_options :: "string \<Rightarrow> string list" where
  "split_options response_options =
     (let responses = js_split (CHR 0x0A) response_options
      in if length responses < 2 then js_split (CHR '','') response_options else responses)"

text \<open>
  Lines 62 to 70, the loop over \<^verbatim>\<open>responses\<close> from index \<open>j\<close> on: \<^verbatim>\<open>response_value[1]\<close> is
  read first and is \<^verbatim>\<open>undefined\<close> when the split on \<^verbatim>\<open>=\<close> has one piece; \<^verbatim>\<open>.trim()\<close> on it
  throws.
\<close>

fun parse_options :: "string list \<Rightarrow> response_option list \<Rightarrow> error + response_option list" where
  "parse_options [] response_json = Inr response_json"
| "parse_options (responses_j # rest) response_json =
     (let response_value = js_split (CHR ''='') responses_j
      in if length response_value < 2 then Inl TypeError
         else parse_options rest
                (response_json @
                   [\<lparr>opt_text = js_trim (response_value ! 1),
                     opt_value = js_trim (response_value ! 0)\<rparr>]))"

text \<open>
  Lines 55 to 71. \<^verbatim>\<open>response_json\<close> is declared with \<^verbatim>\<open>var\<close> inside the \<^verbatim>\<open>if\<close>, so it is a
  variable of the whole function: on a row of type Text Entry it keeps the value the
  previous iteration left. The function takes that value and returns \<^verbatim>\<open>responses\<close> with
  the new value of \<^verbatim>\<open>response_json\<close>. An absent Response Options is \<^verbatim>\<open>undefined\<close>, and
  \<^verbatim>\<open>.split\<close> on it throws.
\<close>

definition row_responses ::
  "row \<Rightarrow> response_option list option
     \<Rightarrow> error + (string list \<times> response_option list option)"
where
  "row_responses r response_json =
     (if Response_Type r \<noteq> ''Text Entry'' then
        (case Response_Options r of
           None \<Rightarrow> Inl TypeError
         | Some response_options \<Rightarrow>
             (let responses = split_options response_options
              in case parse_options responses [] of
                   Inl e \<Rightarrow> Inl e
                 | Inr js \<Rightarrow> Inr (responses, Some js)))
      else Inr ([], response_json))"

text \<open>
  Lines 72 to 75. An absent Question Group Instruction is \<^verbatim>\<open>undefined\<close>, and \<^verbatim>\<open>.trim()\<close> on
  it throws.
\<close>

definition question_title :: "row \<Rightarrow> error + string" where
  "question_title r =
     (let qt = js_trim (Question r)
      in case Question_Group_Instruction r of
           None \<Rightarrow> Inl TypeError
         | Some instruction \<Rightarrow>
             if length (js_trim instruction) > 0
             then Inr (js_trim instruction @ '': '' @ qt)
             else Inr qt)"

text \<open>
  The question of row \<open>r\<close>: lines 55 to 75, then the call of \<^verbatim>\<open>questions_responses\<close> that
  both branches of line 77 make with the same arguments.
\<close>

definition row_question ::
  "row \<Rightarrow> response_option list option \<Rightarrow> error + (question \<times> response_option list option)"
where
  "row_question r response_json =
     (case row_responses r response_json of
        Inl e \<Rightarrow> Inl e
      | Inr (responses, response_json') \<Rightarrow>
          (case question_title r of
             Inl e \<Rightarrow> Inl e
           | Inr qt \<Rightarrow>
               Inr (questions_responses (length responses) qt question_types r response_json',
                    response_json')))"

text \<open>
  \<^verbatim>\<open>dbs_json.find(questionnaire_exists, questionnaire_title)\<close> returns the first element
  that satisfies the predicate; the element is an object of the array, so the \<^verbatim>\<open>push\<close> on
  its \<^verbatim>\<open>questions\<close> changes the array at that index. \<open>find_index\<close> is the index of that
  element.
\<close>

fun find_index :: "('a \<Rightarrow> bool) \<Rightarrow> 'a list \<Rightarrow> nat option" where
  "find_index P [] = None"
| "find_index P (x # xs) =
     (if P x then Some 0 else map_option Suc (find_index P xs))"

text \<open>Lines 76 to 91; \<open>new_title\<close> is the variable \<^verbatim>\<open>questionnaire_title\<close>.\<close>

definition add_question :: "string \<Rightarrow> question \<Rightarrow> questionnaire list \<Rightarrow> questionnaire list" where
  "add_question new_title q dbs_json =
     (case find_index (questionnaire_exists new_title) dbs_json of
        Some k \<Rightarrow>
          dbs_json[k := (dbs_json ! k)\<lparr>questions := questions (dbs_json ! k) @ [q]\<rparr>]
      | None \<Rightarrow>
          dbs_json @
            [\<lparr>activity_type = ''survey'',
              mode = ''basic'',
              frequency = ''1'',
              title = new_title,
              questions = [q]\<rparr>])"

text \<open>The variables of \<^verbatim>\<open>json_restructure\<close> that live across iterations.\<close>

record state =
  dbs_json :: "questionnaire list"
  response_json :: "response_option list option"

text \<open>One iteration of the loop of line 53, on row \<open>r\<close>.\<close>

definition loop_body :: "row \<Rightarrow> state \<Rightarrow> error + state" where
  "loop_body r s =
     (case row_question r (response_json s) of
        Inl e \<Rightarrow> Inl e
      | Inr (q, response_json') \<Rightarrow>
          Inr \<lparr>dbs_json = add_question (questionnaire_title r) q (dbs_json s),
               response_json = response_json'\<rparr>)"

fun loop :: "row list \<Rightarrow> state \<Rightarrow> error + state" where
  "loop [] s = Inr s"
| "loop (r # rs) s =
     (case loop_body r s of
        Inl e \<Rightarrow> Inl e
      | Inr s' \<Rightarrow> loop rs s')"

text \<open>
  \<^verbatim>\<open>json_restructure\<close>: \<^verbatim>\<open>dbs_json\<close> starts as the empty array and \<^verbatim>\<open>response_json\<close> as
  \<^verbatim>\<open>undefined\<close>; the function returns \<^verbatim>\<open>dbs_json\<close>.
\<close>

definition json_restructure :: "row list \<Rightarrow> error + questionnaire list" where
  "json_restructure file_json_array =
     (case loop file_json_array \<lparr>dbs_json = [], response_json = None\<rparr> of
        Inl e \<Rightarrow> Inl e
      | Inr s \<Rightarrow> Inr (dbs_json s))"

section \<open>Facts about the functions\<close>

subsection \<open>Strings and the option parser\<close>

lemma js_split_not_Nil: "js_split sep s \<noteq> []"
  by (induction s) (auto split: list.splits)

lemma length_js_split: "length (js_split sep s) = Suc (length (filter (\<lambda>c. c = sep) s))"
  by (induction s) (auto split: list.splits simp: js_split_not_Nil)

lemma js_split_one_piece: "length (js_split sep s) < 2 \<longleftrightarrow> sep \<notin> set s"
  by (auto simp: length_js_split filter_empty_conv less_Suc_eq)

lemma js_split_unfold:
  "js_split sep s =
     takeWhile (\<lambda>c. c \<noteq> sep) s #
       (if sep \<in> set s then js_split sep (tl (dropWhile (\<lambda>c. c \<noteq> sep) s)) else [])"
  by (induction s) (auto split: list.splits simp: js_split_not_Nil)

lemma js_split_nth0: "js_split sep s ! 0 = takeWhile (\<lambda>c. c \<noteq> sep) s"
  by (subst js_split_unfold) simp

lemma js_split_nth1:
  "sep \<in> set s \<Longrightarrow>
     js_split sep s ! Suc 0 = takeWhile (\<lambda>c. c \<noteq> sep) (tl (dropWhile (\<lambda>c. c \<noteq> sep) s))"
  by (subst js_split_unfold, simp, subst js_split_unfold, simp)

lemma parse_options_eq:
  "parse_options segs acc =
     (if \<forall>seg\<in>set segs. CHR ''='' \<in> set seg
      then Inr (acc @ map (\<lambda>seg. \<lparr>opt_text = js_trim (js_split (CHR ''='') seg ! 1),
                                   opt_value = js_trim (js_split (CHR ''='') seg ! 0)\<rparr>) segs)
      else Inl TypeError)"
  by (induction segs arbitrary: acc) (auto simp: Let_def js_split_one_piece)

subsection \<open>The loop and the list of questionnaires\<close>

lemma find_index_None: "find_index P xs = None \<longleftrightarrow> (\<forall>x\<in>set xs. \<not> P x)"
  by (induction xs) auto

lemma find_index_Some:
  "find_index P xs = Some k \<Longrightarrow> k < length xs \<and> P (xs ! k) \<and> (\<forall>j<k. \<not> P (xs ! j))"
proof (induction xs arbitrary: k)
  case Nil
  then show ?case by simp
next
  case (Cons x xs)
  show ?case
  proof (cases "P x")
    case True
    with Cons.prems show ?thesis by simp
  next
    case False
    with Cons.prems obtain k' where k': "find_index P xs = Some k'" "k = Suc k'"
      by auto
    from Cons.IH[OF k'(1)] False k'(2) show ?thesis
      by (auto simp: less_Suc_eq_0_disj)
  qed
qed

lemma loop_append:
  "loop (xs @ ys) s = (case loop xs s of Inl e \<Rightarrow> Inl e | Inr s' \<Rightarrow> loop ys s')"
  by (induction xs arbitrary: s) (auto split: sum.splits)

lemma loop_snoc:
  "loop (rs @ [r]) s = Inr s' \<longleftrightarrow> (\<exists>s1. loop rs s = Inr s1 \<and> loop_body r s1 = Inr s')"
  by (auto simp: loop_append split: sum.splits)

lemma titles_add_question:
  "map title (add_question t q dbs) =
     (if t \<in> set (map title dbs) then map title dbs else map title dbs @ [t])"
proof (cases "find_index (questionnaire_exists t) dbs")
  case None
  then have "\<forall>Q\<in>set dbs. t \<noteq> title Q"
    by (simp add: find_index_None questionnaire_exists_def)
  with None show ?thesis
    by (auto simp: add_question_def)
next
  case (Some k)
  from find_index_Some[OF Some] have k: "k < length dbs" "t = title (dbs ! k)"
    by (simp_all add: questionnaire_exists_def)
  then have "t \<in> set (map title dbs)"
    by auto
  moreover have "map title (dbs[k := (dbs ! k)\<lparr>questions := questions (dbs ! k) @ [q]\<rparr>]) = map title dbs"
    using k by (simp add: map_update list_update_same_conv)
  ultimately show ?thesis
    using Some by (simp add: add_question_def)
qed

lemma questions_add_question:
  assumes d: "distinct (map title dbs)"
    and Q': "Q' \<in> set (add_question t q dbs)"
  shows "(title Q' \<noteq> t \<and> Q' \<in> set dbs) \<or>
         (title Q' = t \<and> t \<notin> set (map title dbs) \<and> questions Q' = [q]) \<or>
         (title Q' = t \<and> (\<exists>Q\<in>set dbs. title Q = t \<and> questions Q' = questions Q @ [q]))"
proof (cases "find_index (questionnaire_exists t) dbs")
  case None
  then have no: "\<forall>Q\<in>set dbs. title Q \<noteq> t"
    by (auto simp: find_index_None questionnaire_exists_def)
  from Q' None have "Q' \<in> set dbs \<or>
      Q' = \<lparr>activity_type = ''survey'', mode = ''basic'', frequency = ''1'', title = t, questions = [q]\<rparr>"
    by (auto simp: add_question_def)
  then show ?thesis
  proof
    assume "Q' \<in> set dbs"
    with no show ?thesis by blast
  next
    assume "Q' = \<lparr>activity_type = ''survey'', mode = ''basic'', frequency = ''1'', title = t, questions = [q]\<rparr>"
    then have "title Q' = t" "questions Q' = [q]" by simp_all
    moreover from no have "t \<notin> set (map title dbs)" by auto
    ultimately show ?thesis by blast
  qed
next
  case (Some k)
  from find_index_Some[OF Some] have k: "k < length dbs" and tk: "title (dbs ! k) = t"
    by (simp_all add: questionnaire_exists_def)
  define Qk where "Qk = (dbs ! k)\<lparr>questions := questions (dbs ! k) @ [q]\<rparr>"
  from Q' Some have "Q' \<in> set (dbs[k := Qk])"
    by (simp add: add_question_def Qk_def)
  then obtain j where j: "j < length dbs" and Qj: "Q' = dbs[k := Qk] ! j"
    by (auto simp: in_set_conv_nth)
  show ?thesis
  proof (cases "j = k")
    case True
    with Qj k have "Q' = Qk" by simp
    then have "title Q' = t" "questions Q' = questions (dbs ! k) @ [q]"
      using tk by (simp_all add: Qk_def)
    moreover from k have "dbs ! k \<in> set dbs" by simp
    ultimately show ?thesis using tk by blast
  next
    case False
    with Qj have eq: "Q' = dbs ! j" by simp
    from d j k False have "map title dbs ! j \<noteq> map title dbs ! k"
      by (simp add: distinct_conv_nth del: nth_map)
    with j k tk have "title (dbs ! j) \<noteq> t" by simp
    moreover from j have "dbs ! j \<in> set dbs" by simp
    ultimately show ?thesis using eq by blast
  qed
qed

lemma loop_invariant:
  assumes "loop rows \<lparr>dbs_json = [], response_json = None\<rparr> = Inr s'"
  shows "map title (dbs_json s') = rev (remdups (rev (map questionnaire_title rows))) \<and>
         (\<forall>Q\<in>set (dbs_json s').
            list_all2 (\<lambda>q r. \<exists>rj rj'. row_question r rj = Inr (q, rj'))
              (questions Q) (filter (\<lambda>r. questionnaire_title r = title Q) rows))"
  using assms
proof (induction rows arbitrary: s' rule: rev_induct)
  case Nil
  then show ?case by auto
next
  case (snoc r rows)
  let ?R = "\<lambda>q r. \<exists>rj rj'. row_question r rj = Inr (q, rj')"
  from snoc.prems obtain s1 where
    s1: "loop rows \<lparr>dbs_json = [], response_json = None\<rparr> = Inr s1" and body: "loop_body r s1 = Inr s'"
    by (auto simp: loop_snoc)
  from body obtain q rj' where
    q: "row_question r (response_json s1) = Inr (q, rj')"
    and s': "dbs_json s' = add_question (questionnaire_title r) q (dbs_json s1)"
    by (auto simp: loop_body_def split: sum.splits)
  note IH = snoc.IH[OF s1]
  let ?t = "questionnaire_title r"
  from IH have titles1: "map title (dbs_json s1) = rev (remdups (rev (map questionnaire_title rows)))"
    by simp
  then have set1: "set (map title (dbs_json s1)) = questionnaire_title ` set rows"
    by (metis set_map set_remdups set_rev)
  from titles1 have d1: "distinct (map title (dbs_json s1))"
    by simp
  have titles: "map title (dbs_json s') = rev (remdups (rev (map questionnaire_title (rows @ [r]))))"
    unfolding s' titles_add_question using titles1 set1 by auto
  have "list_all2 ?R (questions Q') (filter (\<lambda>r. questionnaire_title r = title Q') (rows @ [r]))"
    if "Q' \<in> set (dbs_json s')" for Q'
  proof -
    from that have "Q' \<in> set (add_question ?t q (dbs_json s1))"
      by (simp add: s')
    from questions_add_question[OF d1 this]
    consider (other) "title Q' \<noteq> ?t" "Q' \<in> set (dbs_json s1)"
      | (new) "title Q' = ?t" "?t \<notin> set (map title (dbs_json s1))" "questions Q' = [q]"
      | (old) Q where "title Q' = ?t" "Q \<in> set (dbs_json s1)" "title Q = ?t" "questions Q' = questions Q @ [q]"
      by blast
    then show ?thesis
    proof cases
      case other
      from IH other(2)
      have "list_all2 ?R (questions Q') (filter (\<lambda>r. questionnaire_title r = title Q') rows)"
        by blast
      with other(1) show ?thesis by simp
    next
      case new
      from new(2) set1 have "\<forall>r'\<in>set rows. questionnaire_title r' \<noteq> ?t"
        by (metis imageI)
      then have "filter (\<lambda>r'. questionnaire_title r' = ?t) rows = []"
        by (simp add: filter_empty_conv)
      moreover from q have "?R q r" by blast
      ultimately show ?thesis using new(1,3) by simp
    next
      case old
      from IH old(2) have "list_all2 ?R (questions Q) (filter (\<lambda>r. questionnaire_title r = title Q) rows)"
        by blast
      moreover from q have "list_all2 ?R [q] [r]" by auto
      ultimately have "list_all2 ?R (questions Q @ [q])
          (filter (\<lambda>r. questionnaire_title r = ?t) rows @ [r])"
        unfolding old(3) by (rule list_all2_appendI)
      with old(1,4) show ?thesis by simp
    qed
  qed
  with titles show ?case by blast
qed

subsection \<open>One row\<close>

lemma split_options_not_Nil: "split_options ro \<noteq> []"
  by (simp add: split_options_def Let_def js_split_not_Nil)

lemma row_responses_nontext:
  "Response_Type r \<noteq> ''Text Entry'' \<Longrightarrow> row_responses r rj = Inr (responses, rj') \<Longrightarrow>
     \<exists>ro. Response_Options r = Some ro \<and> responses = split_options ro \<and>
          parse_options (split_options ro) [] = Inr (the rj') \<and> rj' = Some (the rj')"
  by (auto simp: row_responses_def Let_def split: option.splits sum.splits)

lemma length_parse_options:
  "parse_options segs acc = Inr out \<Longrightarrow> length out = length acc + length segs"
  by (auto simp: parse_options_eq split: if_splits)

lemma questions_responses_update:
  "questions_responses t qt T (r\<lparr>Response_Options := x\<rparr>) rj = questions_responses t qt T r rj"
  by (simp add: questions_responses_def)

lemma row_question_text_update:
  "Response_Type r = ''Text Entry'' \<Longrightarrow>
     row_question (r\<lparr>Response_Options := x\<rparr>) rj = row_question r rj"
  by (simp add: row_question_def row_responses_def question_title_def questions_responses_update
        split: sum.splits)

subsection \<open>The whole run\<close>

lemma loop_raises:
  "r \<in> set rows \<Longrightarrow> (\<And>s. loop_body r s = Inl TypeError) \<Longrightarrow> loop rows s = Inl TypeError"
proof (induction rows arbitrary: s)
  case Nil
  then show ?case by simp
next
  case (Cons a rows)
  show ?case
  proof (cases "loop_body a s")
    case (Inl e)
    then show ?thesis by (cases e) simp
  next
    case (Inr s')
    show ?thesis
    proof (cases "a = r")
      case True
      with Cons.prems(2)[of s] Inr show ?thesis by simp
    next
      case False
      with Cons.prems have "r \<in> set rows" by simp
      from Cons.IH[OF this Cons.prems(2)] Inr show ?thesis by simp
    qed
  qed
qed

lemma row_in_output:
  assumes "json_restructure rows = Inr out" and r: "r \<in> set rows"
  shows "\<exists>Q\<in>set out. title Q = questionnaire_title r \<and>
           (\<exists>q\<in>set (questions Q). \<exists>rj rj'. row_question r rj = Inr (q, rj'))"
proof -
  let ?R = "\<lambda>q r. \<exists>rj rj'. row_question r rj = Inr (q, rj')"
  from assms(1) obtain s' where s': "loop rows \<lparr>dbs_json = [], response_json = None\<rparr> = Inr s'"
    and out: "out = dbs_json s'"
    by (auto simp: json_restructure_def split: sum.splits)
  note inv = loop_invariant[OF s']
  from inv have "set (map title out) = questionnaire_title ` set rows"
    unfolding out by (metis set_map set_remdups set_rev)
  with r have "questionnaire_title r \<in> set (map title out)"
    by blast
  then obtain Q where Q: "Q \<in> set out" "title Q = questionnaire_title r"
    by auto
  with inv out have l: "list_all2 ?R (questions Q) (filter (\<lambda>r. questionnaire_title r = title Q) rows)"
    by blast
  from r Q(2) have "r \<in> set (filter (\<lambda>r'. questionnaire_title r' = title Q) rows)"
    by simp
  then obtain i where i: "i < length (filter (\<lambda>r'. questionnaire_title r' = title Q) rows)"
    "filter (\<lambda>r'. questionnaire_title r' = title Q) rows ! i = r"
    by (metis in_set_conv_nth)
  from l i have "i < length (questions Q)" "?R (questions Q ! i) r"
    by (auto simp: list_all2_conv_all_nth)
  then have "\<exists>q\<in>set (questions Q). ?R q r"
    by (metis nth_mem)
  with Q show ?thesis by blast
qed

text \<open>The definitions that evaluate a run on given rows.\<close>

lemmas restructure_defs = json_restructure_def loop_body_def row_question_def row_responses_def
        split_options_def question_title_def questions_responses_def add_question_def
        questionnaire_title_def questionnaire_exists_def js_trim_def is_whitespace_def
        get_property_def question_types_def object_prototype_keys_def

section \<open>The claims\<close>

subsection \<open>C1: a row that is not Text Entry, with empty Response Options\<close>

text \<open>
  Claim C1 says that a row whose Response Type is not Text Entry and whose Response Options is
  the empty string gives a question without \<^verbatim>\<open>rows\<close>, and that no error is raised. The code
  does not do that: \<^verbatim>\<open>"".split("\n")\<close> and \<^verbatim>\<open>"".split(",")\<close> are both the array of one empty
  string, the loop of line 62 runs once, \<^verbatim>\<open>"".split("=")\<close> has no element 1, and
  \<^verbatim>\<open>response_value[1].trim()\<close> throws. The run of \<^verbatim>\<open>json_restructure\<close> on one such row ends
  in the TypeError; no question is built.
\<close>

theorem empty_options_raise_TypeError:
  "json_restructure
     [\<lparr>Questionnaire_Name = ''PHQ9'', Questionnaire_Abbreviation = ''PHQ9'',
       Question_Group_Instruction = Some [], Question = ''Mood'', Question_Abbreviation = ''mood'',
       Response_Type = ''Single Choice'', Response_Options = Some []\<rparr>] = Inl TypeError"
  by (simp add: json_restructure_def loop_body_def row_question_def row_responses_def
        split_options_def)

subsection \<open>C2: a segment without \<^verbatim>\<open>=\<close>\<close>

text \<open>
  Claim C2, amended: when some row whose Response Type is not Text Entry has a Response
  Options with a segment that contains no \<^verbatim>\<open>=\<close>, \<^verbatim>\<open>json_restructure\<close> raises the TypeError and
  returns nothing, whatever the other rows are. The segments are those of the split of lines
  57 to 60. (The error is the engine's, for \<^verbatim>\<open>.trim()\<close> on \<^verbatim>\<open>undefined\<close>; it names neither the
  segment nor the row.)
\<close>

theorem malformed_segment_raises:
  assumes "r \<in> set rows" and "Response_Type r \<noteq> ''Text Entry''"
    and "Response_Options r = Some ro" and "seg \<in> set (split_options ro)"
    and "CHR ''='' \<notin> set seg"
  shows "json_restructure rows = Inl TypeError"
proof -
  from assms(4,5) have "parse_options (split_options ro) [] = Inl TypeError"
    by (auto simp: parse_options_eq)
  with assms(2,3) have "loop_body r s = Inl TypeError" for s
    by (simp add: loop_body_def row_question_def row_responses_def)
  with assms(1) have "loop rows s = Inl TypeError" for s
    by (rule loop_raises)
  then show ?thesis
    by (simp add: json_restructure_def)
qed

text \<open>
  The theorem on the rows of a worksheet whose second row has the options \<^verbatim>\<open>0=No,1-Yes\<close>.
\<close>

theorem malformed_segment_raises_witness:
  "(let rA = \<lparr>Questionnaire_Name = ''PHQ9'', Questionnaire_Abbreviation = ''PHQ9'',
       Question_Group_Instruction = Some [], Question = ''Mood'', Question_Abbreviation = ''mood'',
       Response_Type = ''Text Entry'', Response_Options = Some []\<rparr>;
        rD = \<lparr>Questionnaire_Name = ''PHQ9'', Questionnaire_Abbreviation = ''PHQ9'',
       Question_Group_Instruction = Some [], Question = ''Sleep'', Question_Abbreviation = ''sleep'',
       Response_Type = ''Single Choice'', Response_Options = Some ''0=No,1-Yes''\<rparr>
    in rD \<in> set [rA, rD] \<and> Response_Type rD \<noteq> ''Text Entry'' \<and>
       Response_Options rD = Some ''0=No,1-Yes'' \<and> ''1-Yes'' \<in> set (split_options ''0=No,1-Yes'') \<and>
       CHR ''='' \<notin> set ''1-Yes'' \<and> json_restructure [rA, rD] = Inl TypeError)"
proof -
  define rA where "rA = \<lparr>Questionnaire_Name = ''PHQ9'', Questionnaire_Abbreviation = ''PHQ9'',
       Question_Group_Instruction = Some [], Question = ''Mood'', Question_Abbreviation = ''mood'',
       Response_Type = ''Text Entry'', Response_Options = Some []\<rparr>"
  define rD where "rD = \<lparr>Questionnaire_Name = ''PHQ9'', Questionnaire_Abbreviation = ''PHQ9'',
       Question_Group_Instruction = Some [], Question = ''Sleep'', Question_Abbreviation = ''sleep'',
       Response_Type = ''Single Choice'', Response_Options = Some ''0=No,1-Yes''\<rparr>"
  have h1: "rD \<in> set [rA, rD]" by simp
  have h2: "Response_Type rD \<noteq> ''Text Entry''" by (simp add: rD_def)
  have h3: "Response_Options rD = Some ''0=No,1-Yes''" by (simp add: rD_def)
  have h4: "''1-Yes'' \<in> set (split_options ''0=No,1-Yes'')" by (simp add: split_options_def)
  have h5: "CHR ''='' \<notin> set ''1-Yes''" by simp
  from malformed_segment_raises[OF h1 h2 h3 h4 h5] h1 h2 h3 h4 h5
  have "rD \<in> set [rA, rD] \<and> Response_Type rD \<noteq> ''Text Entry'' \<and>
       Response_Options rD = Some ''0=No,1-Yes'' \<and> ''1-Yes'' \<in> set (split_options ''0=No,1-Yes'') \<and>
       CHR ''='' \<notin> set ''1-Yes'' \<and> json_restructure [rA, rD] = Inl TypeError"
    by blast
  then show ?thesis
    unfolding rA_def rD_def Let_def .
qed

text \<open>
  Claim C2 as stated asks for an error that identifies the offending segment and row. Two
  worksheets whose offending segments (\<^verbatim>\<open>1-Yes\<close> and \<^verbatim>\<open>2-Often\<close>) and rows differ raise the
  same error, so the error identifies neither.
\<close>

theorem malformed_segment_counterexample:
  "json_restructure
     [\<lparr>Questionnaire_Name = ''PHQ9'', Questionnaire_Abbreviation = ''PHQ9'',
       Question_Group_Instruction = Some [], Question = ''Mood'', Question_Abbreviation = ''mood'',
       Response_Type = ''Single Choice'', Response_Options = Some ''1-Yes''\<rparr>] = Inl TypeError \<and>
   json_restructure
     [\<lparr>Questionnaire_Name = ''GAD7'', Questionnaire_Abbreviation = ''GAD7'',
       Question_Group_Instruction = Some [], Question = ''Worry'', Question_Abbreviation = ''worry'',
       Response_Type = ''Multiple Choice'', Response_Options = Some ''0=No,2-Often''\<rparr>] = Inl TypeError"
  by (simp add: json_restructure_def loop_body_def row_question_def row_responses_def
        split_options_def)

subsection \<open>C3: value and text of an option\<close>

text \<open>
  Claim C3, amended: when every segment contains \<^verbatim>\<open>=\<close>, the parser returns one option for
  each segment, in order; its value is the trimmed part of the segment before the first
  \<^verbatim>\<open>=\<close>, and its text is the trimmed part between the first \<^verbatim>\<open>=\<close> and the second one, or
  the end of the segment when there is no second one. What follows a second \<^verbatim>\<open>=\<close> is
  dropped.
\<close>

theorem option_value_text:
  assumes "\<forall>seg\<in>set segs. CHR ''='' \<in> set seg"
  shows "parse_options segs [] =
     Inr (map (\<lambda>seg.
            \<lparr>opt_text = js_trim (takeWhile (\<lambda>c. c \<noteq> CHR ''='')
                                  (tl (dropWhile (\<lambda>c. c \<noteq> CHR ''='') seg))),
             opt_value = js_trim (takeWhile (\<lambda>c. c \<noteq> CHR ''='') seg)\<rparr>) segs)"
  using assms by (simp add: parse_options_eq js_split_nth0 js_split_nth1 cong: map_cong)

text \<open>
  The theorem on the segments \<^verbatim>\<open>1=Yes\<close> and \<^verbatim>\<open> 2 = a=b \<close>.
\<close>

theorem option_value_text_witness:
  "CHR ''='' \<in> set ''1=Yes'' \<and> CHR ''='' \<in> set '' 2 = a=b '' \<and>
   parse_options [''1=Yes'', '' 2 = a=b ''] [] =
     Inr [\<lparr>opt_text = ''Yes'', opt_value = ''1''\<rparr>, \<lparr>opt_text = ''a'', opt_value = ''2''\<rparr>]"
proof -
  have h: "\<forall>seg\<in>set [''1=Yes'', '' 2 = a=b '']. CHR ''='' \<in> set seg"
    by simp
  from option_value_text[OF h] h show ?thesis
    by (simp add: js_trim_def is_whitespace_def)
qed

text \<open>
  Claim C3 as stated gives the segment \<^verbatim>\<open>1=a=b\<close> the text \<^verbatim>\<open>a=b\<close>. The run on a row with
  that segment gives the text \<^verbatim>\<open>a\<close>.
\<close>

theorem option_text_counterexample:
  "json_restructure
     [\<lparr>Questionnaire_Name = ''PHQ9'', Questionnaire_Abbreviation = ''PHQ9'',
       Question_Group_Instruction = Some [], Question = ''Mood'', Question_Abbreviation = ''mood'',
       Response_Type = ''Single Choice'', Response_Options = Some ''1=a=b''\<rparr>] =
   Inr [\<lparr>activity_type = ''survey'', mode = ''basic'', frequency = ''1'', title = ''PHQ9'',
         questions =
           [\<lparr>q_title = ''Mood'', q_type = TString ''single_sel'',
             q_rows = Some (Some [\<lparr>opt_text = ''a'', opt_value = ''1''\<rparr>]),
             q_variable_name = ''mood''\<rparr>]\<rparr>]"
  by (simp add: restructure_defs)

subsection \<open>C4: one questionnaire for each title\<close>

text \<open>
  Claim C4: when \<^verbatim>\<open>json_restructure\<close> returns, the titles of the questionnaires of the output
  are pairwise different; they are the computed titles of the rows, each once, in the order of
  their first appearance (\<open>rev (remdups (rev ts))\<close> keeps the first occurrence of each
  element of \<open>ts\<close>); the number of questionnaires is the number of different computed
  titles; and the questions of a questionnaire are the questions built for the rows with its
  title, in the order of the rows.
\<close>

theorem questionnaire_titles_unique:
  assumes "json_restructure rows = Inr out"
  shows "distinct (map title out) \<and>
         map title out = rev (remdups (rev (map questionnaire_title rows))) \<and>
         length out = card (questionnaire_title ` set rows) \<and>
         (\<forall>Q\<in>set out.
            list_all2 (\<lambda>q r. \<exists>rj rj'. row_question r rj = Inr (q, rj'))
              (questions Q) (filter (\<lambda>r. questionnaire_title r = title Q) rows))"
proof -
  from assms obtain s' where s': "loop rows \<lparr>dbs_json = [], response_json = None\<rparr> = Inr s'"
    and out: "out = dbs_json s'"
    by (auto simp: json_restructure_def split: sum.splits)
  note inv = loop_invariant[OF s']
  from inv have titles: "map title out = rev (remdups (rev (map questionnaire_title rows)))"
    by (simp add: out)
  then have "distinct (map title out)"
    by simp
  moreover have "length out = card (questionnaire_title ` set rows)"
  proof -
    have "length out = length (map title out)" by simp
    also have "\<dots> = length (remdups (rev (map questionnaire_title rows)))"
      by (simp only: titles length_rev)
    also have "\<dots> = card (set (rev (map questionnaire_title rows)))"
      by (rule length_remdups_card_conv)
    finally show ?thesis by simp
  qed
  ultimately show ?thesis
    using titles inv out by blast
qed

text \<open>
  The theorem on three rows: two of the questionnaire PHQ9 with a row of GAD7 between them.
\<close>

theorem questionnaire_titles_unique_witness:
  "\<exists>out. json_restructure
     [\<lparr>Questionnaire_Name = ''PHQ9'', Questionnaire_Abbreviation = ''PHQ9'',
       Question_Group_Instruction = Some [], Question = ''Mood'', Question_Abbreviation = ''mood'',
       Response_Type = ''Single Choice'',
       Response_Options = Some (''0=Not at all'' @ [CHR 0x0A] @ ''1=Several days'')\<rparr>,
      \<lparr>Questionnaire_Name = ''Generalized Anxiety'', Questionnaire_Abbreviation = ''GAD7'',
       Question_Group_Instruction = Some ''Intro'', Question = ''Worry'',
       Question_Abbreviation = ''worry'', Response_Type = ''Multiple Choice'',
       Response_Options = Some ''1=Yes, 2=No''\<rparr>,
      \<lparr>Questionnaire_Name = ''PHQ9'', Questionnaire_Abbreviation = ''PHQ9'',
       Question_Group_Instruction = Some [], Question = ''Notes'', Question_Abbreviation = ''notes'',
       Response_Type = ''Text Entry'', Response_Options = None\<rparr>] = Inr out \<and>
     distinct (map title out) \<and>
     map title out = [''PHQ9'', ''GAD7 (Generalized Anxiety)''] \<and>
     length out = 2 \<and>
     map (\<lambda>Q. length (questions Q)) out = [2, 1]"
proof -
  define rows :: "row list" where "rows =
     [\<lparr>Questionnaire_Name = ''PHQ9'', Questionnaire_Abbreviation = ''PHQ9'',
       Question_Group_Instruction = Some [], Question = ''Mood'', Question_Abbreviation = ''mood'',
       Response_Type = ''Single Choice'',
       Response_Options = Some (''0=Not at all'' @ [CHR 0x0A] @ ''1=Several days'')\<rparr>,
      \<lparr>Questionnaire_Name = ''Generalized Anxiety'', Questionnaire_Abbreviation = ''GAD7'',
       Question_Group_Instruction = Some ''Intro'', Question = ''Worry'',
       Question_Abbreviation = ''worry'', Response_Type = ''Multiple Choice'',
       Response_Options = Some ''1=Yes, 2=No''\<rparr>,
      \<lparr>Questionnaire_Name = ''PHQ9'', Questionnaire_Abbreviation = ''PHQ9'',
       Question_Group_Instruction = Some [], Question = ''Notes'', Question_Abbreviation = ''notes'',
       Response_Type = ''Text Entry'', Response_Options = None\<rparr>]"
  define out :: "questionnaire list" where "out =
     [\<lparr>activity_type = ''survey'', mode = ''basic'', frequency = ''1'', title = ''PHQ9'',
       questions =
         [\<lparr>q_title = ''Mood'', q_type = TString ''single_sel'',
           q_rows = Some (Some [\<lparr>opt_text = ''Not at all'', opt_value = ''0''\<rparr>,
                                \<lparr>opt_text = ''Several days'', opt_value = ''1''\<rparr>]),
           q_variable_name = ''mood''\<rparr>,
          \<lparr>q_title = ''Notes'', q_type = TString ''text'', q_rows = None,
           q_variable_name = ''notes''\<rparr>]\<rparr>,
      \<lparr>activity_type = ''survey'', mode = ''basic'', frequency = ''1'',
       title = ''GAD7 (Generalized Anxiety)'',
       questions =
         [\<lparr>q_title = ''Intro: Worry'', q_type = TString ''multi_sel'',
           q_rows = Some (Some [\<lparr>opt_text = ''Yes'', opt_value = ''1''\<rparr>,
                                \<lparr>opt_text = ''No'', opt_value = ''2''\<rparr>]),
           q_variable_name = ''worry''\<rparr>]\<rparr>]"
  have h: "json_restructure rows = Inr out"
    by (simp add: rows_def out_def restructure_defs)
  from questionnaire_titles_unique[OF h]
  have "distinct (map title out)"
    and "map title out = rev (remdups (rev (map questionnaire_title rows)))"
    and "length out = card (questionnaire_title ` set rows)"
    by simp_all
  moreover have "rev (remdups (rev (map questionnaire_title rows))) =
      [''PHQ9'', ''GAD7 (Generalized Anxiety)'']"
    by (simp add: rows_def questionnaire_title_def)
  moreover have "map (\<lambda>Q. length (questions Q)) out = [2, 1]"
    by (simp add: out_def)
  ultimately have "json_restructure rows = Inr out \<and> distinct (map title out) \<and>
     map title out = [''PHQ9'', ''GAD7 (Generalized Anxiety)''] \<and> length out = 2 \<and>
     map (\<lambda>Q. length (questions Q)) out = [2, 1]"
    using h by (simp add: out_def)
  then show ?thesis
    unfolding rows_def by (rule exI)
qed

subsection \<open>C5: rows of type Text Entry\<close>

text \<open>
  Claim C5: for a row of Response Type Text Entry, the option parser is not run:
  \<^verbatim>\<open>responses\<close> stays the empty array and \<^verbatim>\<open>response_json\<close> keeps the value \<open>rj\<close> it had, and
  the question is the same whatever the Response Options \<open>x\<close> of the row is (absent, or
  with segments that would not parse). When the run returns, the output holds, in the
  questionnaire of the row's title, the question built for the row, and that question has no
  \<^verbatim>\<open>rows\<close>.
\<close>

theorem text_entry_no_rows:
  assumes "json_restructure rows = Inr out" and "r \<in> set rows"
    and "Response_Type r = ''Text Entry''"
  shows "row_responses r rj = Inr ([], rj) \<and>
         row_question (r\<lparr>Response_Options := x\<rparr>) rj = row_question r rj \<and>
         (\<exists>Q\<in>set out. title Q = questionnaire_title r \<and>
            (\<exists>q\<in>set (questions Q).
               (\<exists>rj rj'. row_question r rj = Inr (q, rj')) \<and> q_rows q = None))"
proof -
  from row_in_output[OF assms(1,2)] obtain Q q rj0 rj0' where
    Q: "Q \<in> set out" "title Q = questionnaire_title r" "q \<in> set (questions Q)"
    and q: "row_question r rj0 = Inr (q, rj0')"
    by blast
  from q assms(3) have "q_rows q = None"
    by (auto simp: row_question_def row_responses_def questions_responses_def split: sum.splits)
  with Q q have "\<exists>Q\<in>set out. title Q = questionnaire_title r \<and>
            (\<exists>q\<in>set (questions Q).
               (\<exists>rj rj'. row_question r rj = Inr (q, rj')) \<and> q_rows q = None)"
    by blast
  moreover from assms(3) have "row_responses r rj = Inr ([], rj)"
    by (simp add: row_responses_def)
  moreover from assms(3) have "row_question (r\<lparr>Response_Options := x\<rparr>) rj = row_question r rj"
    by (rule row_question_text_update)
  ultimately show ?thesis by blast
qed

text \<open>
  The theorem on a Text Entry row whose Response Options would not parse.
\<close>

theorem text_entry_no_rows_witness:
  "(let rT = \<lparr>Questionnaire_Name = ''PHQ9'', Questionnaire_Abbreviation = ''PHQ9'',
       Question_Group_Instruction = Some [], Question = ''Notes'', Question_Abbreviation = ''notes'',
       Response_Type = ''Text Entry'', Response_Options = Some ''1-Yes''\<rparr>
    in \<exists>out. json_restructure [rT] = Inr out \<and> rT \<in> set [rT] \<and>
         Response_Type rT = ''Text Entry'' \<and>
         row_responses rT None = Inr ([], None) \<and>
         row_question (rT\<lparr>Response_Options := None\<rparr>) None = row_question rT None \<and>
         (\<exists>Q\<in>set out. title Q = questionnaire_title rT \<and>
            (\<exists>q\<in>set (questions Q).
               (\<exists>rj rj'. row_question rT rj = Inr (q, rj')) \<and> q_rows q = None)))"
proof -
  define rT where "rT = \<lparr>Questionnaire_Name = ''PHQ9'', Questionnaire_Abbreviation = ''PHQ9'',
       Question_Group_Instruction = Some [], Question = ''Notes'', Question_Abbreviation = ''notes'',
       Response_Type = ''Text Entry'', Response_Options = Some ''1-Yes''\<rparr>"
  have h1: "json_restructure [rT] =
      Inr [\<lparr>activity_type = ''survey'', mode = ''basic'', frequency = ''1'', title = ''PHQ9'',
            questions = [\<lparr>q_title = ''Notes'', q_type = TString ''text'', q_rows = None,
                           q_variable_name = ''notes''\<rparr>]\<rparr>]"
    by (simp add: rT_def restructure_defs)
  have h2: "rT \<in> set [rT]" by simp
  have h3: "Response_Type rT = ''Text Entry''" by (simp add: rT_def)
  from text_entry_no_rows[OF h1 h2 h3, of None None] h1 h2 h3
  have "\<exists>out. json_restructure [rT] = Inr out \<and> rT \<in> set [rT] \<and>
         Response_Type rT = ''Text Entry'' \<and>
         row_responses rT None = Inr ([], None) \<and>
         row_question (rT\<lparr>Response_Options := None\<rparr>) None = row_question rT None \<and>
         (\<exists>Q\<in>set out. title Q = questionnaire_title rT \<and>
            (\<exists>q\<in>set (questions Q).
               (\<exists>rj rj'. row_question rT rj = Inr (q, rj')) \<and> q_rows q = None))"
    by blast
  then show ?thesis
    unfolding rT_def Let_def .
qed

subsection \<open>C6: the computed title\<close>

text \<open>
  Claim C6: the computed title of a row is its Questionnaire Name when that equals its
  Questionnaire Abbreviation, and otherwise the Abbreviation, a space, and the Name in
  parentheses. The run on a row with Name \<^verbatim>\<open>Patient Health Questionnaire\<close> and Abbreviation
  \<^verbatim>\<open>PHQ9\<close> returns one questionnaire, titled \<^verbatim>\<open>PHQ9 (Patient Health Questionnaire)\<close>.
\<close>

theorem questionnaire_title_computed:
  "questionnaire_title r =
     (if Questionnaire_Name r = Questionnaire_Abbreviation r then Questionnaire_Name r
      else Questionnaire_Abbreviation r @ '' ('' @ Questionnaire_Name r @ '')'') \<and>
   json_restructure
     [\<lparr>Questionnaire_Name = ''Patient Health Questionnaire'', Questionnaire_Abbreviation = ''PHQ9'',
       Question_Group_Instruction = Some ''Intro'', Question = ''How are you?'',
       Question_Abbreviation = ''mood'', Response_Type = ''Text Entry'',
       Response_Options = None\<rparr>] =
   Inr [\<lparr>activity_type = ''survey'', mode = ''basic'', frequency = ''1'',
         title = ''PHQ9 (Patient Health Questionnaire)'',
         questions =
           [\<lparr>q_title = ''Intro: How are you?'', q_type = TString ''text'', q_rows = None,
             q_variable_name = ''mood''\<rparr>]\<rparr>]"
  by (simp add: restructure_defs)

subsection \<open>C7: newlines first, commas otherwise\<close>

text \<open>
  Claim C7: for a row whose Response Type is not Text Entry, on which lines 55 to 71 do not
  throw, \<^verbatim>\<open>responses\<close> is the split of Response Options on newlines, unless that split has
  fewer than 2 elements, and then it is the split of the same string on commas. The split on
  newlines has fewer than 2 elements exactly when the string contains no newline. The parser
  gives one option for each element of \<^verbatim>\<open>responses\<close>.
\<close>

theorem newline_then_comma_split:
  assumes "Response_Type r \<noteq> ''Text Entry''" and "Response_Options r = Some ro"
    and "row_responses r rj = Inr (responses, rj')"
  shows "responses =
           (if length (js_split (CHR 0x0A) ro) < 2 then js_split (CHR '','') ro
            else js_split (CHR 0x0A) ro) \<and>
         (length (js_split (CHR 0x0A) ro) < 2 \<longleftrightarrow> CHR 0x0A \<notin> set ro) \<and>
         (\<exists>opts. rj' = Some opts \<and> parse_options responses [] = Inr opts \<and>
                 length opts = length responses)"
proof -
  from row_responses_nontext[OF assms(1,3)] assms(2) have
    r: "responses = split_options ro" and p: "parse_options responses [] = Inr (the rj')"
    and s: "rj' = Some (the rj')"
    by auto
  from length_parse_options[OF p] have "length (the rj') = length responses"
    by simp
  with p s have "\<exists>opts. rj' = Some opts \<and> parse_options responses [] = Inr opts \<and>
                 length opts = length responses"
    by blast
  moreover from r have "responses =
           (if length (js_split (CHR 0x0A) ro) < 2 then js_split (CHR '','') ro
            else js_split (CHR 0x0A) ro)"
    by (simp add: split_options_def Let_def)
  moreover have "length (js_split (CHR 0x0A) ro) < 2 \<longleftrightarrow> CHR 0x0A \<notin> set ro"
    by (rule js_split_one_piece)
  ultimately show ?thesis by blast
qed

text \<open>
  The theorem on the Response Options \<^verbatim>\<open>1=Yes, 2=No\<close>: no newline, so the split is on the
  comma, and there are two options.
\<close>

theorem newline_then_comma_split_witness:
  "(let rC = \<lparr>Questionnaire_Name = ''PHQ9'', Questionnaire_Abbreviation = ''PHQ9'',
       Question_Group_Instruction = Some [], Question = ''Mood'', Question_Abbreviation = ''mood'',
       Response_Type = ''Single Choice'', Response_Options = Some ''1=Yes, 2=No''\<rparr>
    in Response_Type rC \<noteq> ''Text Entry'' \<and> Response_Options rC = Some ''1=Yes, 2=No'' \<and>
       row_responses rC None =
         Inr ([''1=Yes'', '' 2=No''],
              Some [\<lparr>opt_text = ''Yes'', opt_value = ''1''\<rparr>,
                    \<lparr>opt_text = ''No'', opt_value = ''2''\<rparr>]) \<and>
       [''1=Yes'', '' 2=No''] =
         (if length (js_split (CHR 0x0A) ''1=Yes, 2=No'') < 2
          then js_split (CHR '','') ''1=Yes, 2=No''
          else js_split (CHR 0x0A) ''1=Yes, 2=No'') \<and>
       (length (js_split (CHR 0x0A) ''1=Yes, 2=No'') < 2 \<longleftrightarrow>
          CHR 0x0A \<notin> set ''1=Yes, 2=No''))"
proof -
  define rC where "rC = \<lparr>Questionnaire_Name = ''PHQ9'', Questionnaire_Abbreviation = ''PHQ9'',
       Question_Group_Instruction = Some [], Question = ''Mood'', Question_Abbreviation = ''mood'',
       Response_Type = ''Single Choice'', Response_Options = Some ''1=Yes, 2=No''\<rparr>"
  have h1: "Response_Type rC \<noteq> ''Text Entry''" by (simp add: rC_def)
  have h2: "Response_Options rC = Some ''1=Yes, 2=No''" by (simp add: rC_def)
  have h3: "row_responses rC None =
         Inr ([''1=Yes'', '' 2=No''],
              Some [\<lparr>opt_text = ''Yes'', opt_value = ''1''\<rparr>,
                    \<lparr>opt_text = ''No'', opt_value = ''2''\<rparr>])"
    by (simp add: rC_def row_responses_def split_options_def js_trim_def is_whitespace_def)
  from newline_then_comma_split[OF h1 h2 h3] h1 h2 h3
  have "Response_Type rC \<noteq> ''Text Entry'' \<and> Response_Options rC = Some ''1=Yes, 2=No'' \<and>
       row_responses rC None =
         Inr ([''1=Yes'', '' 2=No''],
              Some [\<lparr>opt_text = ''Yes'', opt_value = ''1''\<rparr>,
                    \<lparr>opt_text = ''No'', opt_value = ''2''\<rparr>]) \<and>
       [''1=Yes'', '' 2=No''] =
         (if length (js_split (CHR 0x0A) ''1=Yes, 2=No'') < 2
          then js_split (CHR '','') ''1=Yes, 2=No''
          else js_split (CHR 0x0A) ''1=Yes, 2=No'') \<and>
       (length (js_split (CHR 0x0A) ''1=Yes, 2=No'') < 2 \<longleftrightarrow>
          CHR 0x0A \<notin> set ''1=Yes, 2=No'')"
    by blast
  then show ?thesis
    unfolding rC_def Let_def .
qed

subsection \<open>C8: the lookup in \<^verbatim>\<open>question_types\<close>\<close>

text \<open>
  Claim C8, amended: the lookup gives \<^verbatim>\<open>single_sel\<close> for Single Choice, \<^verbatim>\<open>image_sel\<close> for
  Image, \<^verbatim>\<open>multi_sel\<close> for Multiple Choice and \<^verbatim>\<open>text\<close> for Text Entry; for any other string
  that is not the name of a property of \<^verbatim>\<open>Object.prototype\<close> it gives \<^verbatim>\<open>undefined\<close>. The lookup
  is a total function: it raises no error for any string. Its value is the \<^verbatim>\<open>type\<close> of the
  question that \<^verbatim>\<open>questions_responses\<close> builds.
\<close>

theorem type_lookup:
  "get_property question_types ''Single Choice'' = TString ''single_sel'' \<and>
   get_property question_types ''Image'' = TString ''image_sel'' \<and>
   get_property question_types ''Multiple Choice'' = TString ''multi_sel'' \<and>
   get_property question_types ''Text Entry'' = TString ''text'' \<and>
   (k \<notin> {''Single Choice'', ''Image'', ''Multiple Choice'', ''Text Entry''} \<longrightarrow>
    k \<notin> set object_prototype_keys \<longrightarrow> get_property question_types k = TUndefined) \<and>
   q_type (questions_responses test qt question_types r rj) =
     get_property question_types (Response_Type r)"
  by (simp add: get_property_def question_types_def questions_responses_def)

text \<open>
  The theorem at the Response Type \<^verbatim>\<open>Slider\<close>.
\<close>

theorem type_lookup_witness:
  "''Slider'' \<notin> {''Single Choice'', ''Image'', ''Multiple Choice'', ''Text Entry''} \<and>
   ''Slider'' \<notin> set object_prototype_keys \<and>
   get_property question_types ''Slider'' = TUndefined"
proof -
  have h1: "''Slider'' \<notin> {''Single Choice'', ''Image'', ''Multiple Choice'', ''Text Entry''}"
    by simp
  have h2: "''Slider'' \<notin> set object_prototype_keys"
    by (simp add: object_prototype_keys_def)
  have "get_property question_types ''Slider'' = TUndefined"
    by (rule type_lookup[of "''Slider''", THEN conjunct2, THEN conjunct2, THEN conjunct2,
          THEN conjunct2, THEN conjunct1, THEN mp, THEN mp, OF h1 h2])
  with h1 h2 show ?thesis
    by (intro conjI)
qed

text \<open>
  Claim C8 as stated gives \<^verbatim>\<open>undefined\<close> for every string other than the four keys. The
  string \<^verbatim>\<open>constructor\<close> is none of the four, and \<^verbatim>\<open>question_types["constructor"]\<close> is the
  member that the object literal inherits from its prototype.
\<close>

theorem type_lookup_counterexample:
  "''constructor'' \<notin> {''Single Choice'', ''Image'', ''Multiple Choice'', ''Text Entry''} \<and>
   get_property question_types ''constructor'' = TInherited ''constructor'' \<and>
   get_property question_types ''constructor'' \<noteq> TUndefined"
  by (simp add: get_property_def question_types_def object_prototype_keys_def)

subsection \<open>C9: rows of another type have options\<close>

text \<open>
  Claim C9: for a row whose Response Type is not Text Entry, when the run returns, the output
  holds, in the questionnaire of the row's title, the question built for the row, and that
  question has \<^verbatim>\<open>rows\<close>, an array of at least one option.
\<close>

theorem nontext_question_has_rows:
  assumes "json_restructure rows = Inr out" and "r \<in> set rows"
    and "Response_Type r \<noteq> ''Text Entry''"
  shows "\<exists>Q\<in>set out. title Q = questionnaire_title r \<and>
            (\<exists>q\<in>set (questions Q).
               (\<exists>rj rj'. row_question r rj = Inr (q, rj')) \<and>
               (\<exists>opts. q_rows q = Some (Some opts) \<and> opts \<noteq> []))"
proof -
  from row_in_output[OF assms(1,2)] obtain Q q rj0 rj0' where
    Q: "Q \<in> set out" "title Q = questionnaire_title r" "q \<in> set (questions Q)"
    and q: "row_question r rj0 = Inr (q, rj0')"
    by blast
  from q obtain responses qt where
    rr: "row_responses r rj0 = Inr (responses, rj0')"
    and qq: "q = questions_responses (length responses) qt question_types r rj0'"
    by (auto simp: row_question_def split: sum.splits)
  from row_responses_nontext[OF assms(3) rr] obtain ro where
    ro: "responses = split_options ro" "parse_options (split_options ro) [] = Inr (the rj0')"
      "rj0' = Some (the rj0')"
    by blast
  from ro(1) have ne: "responses \<noteq> []"
    by (simp add: split_options_not_Nil)
  from length_parse_options[OF ro(2)] have "length (the rj0') = length responses"
    by (simp add: ro(1))
  with ne have "the rj0' \<noteq> []"
    by auto
  moreover from qq ne ro(3) have "q_rows q = Some (Some (the rj0'))"
    by (simp add: questions_responses_def)
  ultimately have "\<exists>opts. q_rows q = Some (Some opts) \<and> opts \<noteq> []"
    by blast
  with Q q show ?thesis by blast
qed

text \<open>
  The theorem on a row of type Image with the one option \<^verbatim>\<open>0=No\<close>.
\<close>

theorem nontext_question_has_rows_witness:
  "(let rS = \<lparr>Questionnaire_Name = ''PHQ9'', Questionnaire_Abbreviation = ''PHQ9'',
       Question_Group_Instruction = Some [], Question = ''Mood'', Question_Abbreviation = ''mood'',
       Response_Type = ''Image'', Response_Options = Some ''0=No''\<rparr>
    in \<exists>out. json_restructure [rS] = Inr out \<and> rS \<in> set [rS] \<and>
         Response_Type rS \<noteq> ''Text Entry'' \<and>
         (\<exists>Q\<in>set out. title Q = questionnaire_title rS \<and>
            (\<exists>q\<in>set (questions Q).
               (\<exists>rj rj'. row_question rS rj = Inr (q, rj')) \<and>
               (\<exists>opts. q_rows q = Some (Some opts) \<and> opts \<noteq> []))))"
proof -
  define rS where "rS = \<lparr>Questionnaire_Name = ''PHQ9'', Questionnaire_Abbreviation = ''PHQ9'',
       Question_Group_Instruction = Some [], Question = ''Mood'', Question_Abbreviation = ''mood'',
       Response_Type = ''Image'', Response_Options = Some ''0=No''\<rparr>"
  have h1: "json_restructure [rS] =
      Inr [\<lparr>activity_type = ''survey'', mode = ''basic'', frequency = ''1'', title = ''PHQ9'',
            questions = [\<lparr>q_title = ''Mood'', q_type = TString ''image_sel'',
                           q_rows = Some (Some [\<lparr>opt_text = ''No'', opt_value = ''0''\<rparr>]),
                           q_variable_name = ''mood''\<rparr>]\<rparr>]"
    by (simp add: rS_def restructure_defs)
  have h2: "rS \<in> set [rS]" by simp
  have h3: "Response_Type rS \<noteq> ''Text Entry''" by (simp add: rS_def)
  from nontext_question_has_rows[OF h1 h2 h3] h1 h2 h3
  have "\<exists>out. json_restructure [rS] = Inr out \<and> rS \<in> set [rS] \<and>
         Response_Type rS \<noteq> ''Text Entry'' \<and>
         (\<exists>Q\<in>set out. title Q = questionnaire_title rS \<and>
            (\<exists>q\<in>set (questions Q).
               (\<exists>rj rj'. row_question rS rj = Inr (q, rj')) \<and>
               (\<exists>opts. q_rows q = Some (Some opts) \<and> opts \<noteq> [])))"
    by blast
  then show ?thesis
    unfolding rS_def Let_def .
qed

subsection \<open>C10: the Response Options of Text Entry rows do not reach the output\<close>

text \<open>
  Claim C10: two sequences of rows of the same length that agree row by row, except perhaps
  in the Response Options of the rows of Response Type Text Entry (which may be absent in one
  and present in the other), have the same result: the same output, or the same error.
\<close>

theorem text_entry_options_ignored:
  assumes "list_all2 (\<lambda>r r'. if Response_Type r = ''Text Entry''
                               then r' = r\<lparr>Response_Options := Response_Options r'\<rparr>
                               else r' = r) rows rows'"
  shows "json_restructure rows' = json_restructure rows"
proof -
  have body: "loop_body r' s = loop_body r s"
    if "if Response_Type r = ''Text Entry''
        then r' = r\<lparr>Response_Options := Response_Options r'\<rparr> else r' = r" for r r' s
  proof (cases "Response_Type r = ''Text Entry''")
    case True
    with that have r': "r' = r\<lparr>Response_Options := Response_Options r'\<rparr>" by simp
    have "loop_body (r\<lparr>Response_Options := x\<rparr>) s = loop_body r s" for x
      using True
      by (simp add: loop_body_def row_question_text_update questionnaire_title_def
            split: sum.splits)
    with r' show ?thesis by metis
  next
    case False
    with that show ?thesis by simp
  qed
  from assms have "loop rows' s = loop rows s" for s
  proof (induction rows rows' arbitrary: s rule: list_all2_induct)
    case Nil
    then show ?case by simp
  next
    case (Cons r rs r' rs')
    from body[OF Cons.hyps(1)] Cons.IH show ?case
      by (simp split: sum.splits)
  qed
  then show ?thesis
    by (simp add: json_restructure_def)
qed

text \<open>
  The theorem on two rows, where the Text Entry row has Response Options that would not
  parse on one side and none on the other.
\<close>

theorem text_entry_options_ignored_witness:
  "(let rS = \<lparr>Questionnaire_Name = ''PHQ9'', Questionnaire_Abbreviation = ''PHQ9'',
       Question_Group_Instruction = Some [], Question = ''Mood'', Question_Abbreviation = ''mood'',
       Response_Type = ''Single Choice'', Response_Options = Some ''0=No''\<rparr>;
        rT = \<lparr>Questionnaire_Name = ''PHQ9'', Questionnaire_Abbreviation = ''PHQ9'',
       Question_Group_Instruction = Some [], Question = ''Notes'', Question_Abbreviation = ''notes'',
       Response_Type = ''Text Entry'', Response_Options = Some ''1-Yes''\<rparr>
    in list_all2 (\<lambda>r r'. if Response_Type r = ''Text Entry''
                           then r' = r\<lparr>Response_Options := Response_Options r'\<rparr>
                           else r' = r)
         [rS, rT] [rS, rT\<lparr>Response_Options := None\<rparr>] \<and>
       json_restructure [rS, rT\<lparr>Response_Options := None\<rparr>] = json_restructure [rS, rT])"
proof -
  define rS where "rS = \<lparr>Questionnaire_Name = ''PHQ9'', Questionnaire_Abbreviation = ''PHQ9'',
       Question_Group_Instruction = Some [], Question = ''Mood'', Question_Abbreviation = ''mood'',
       Response_Type = ''Single Choice'', Response_Options = Some ''0=No''\<rparr>"
  define rT where "rT = \<lparr>Questionnaire_Name = ''PHQ9'', Questionnaire_Abbreviation = ''PHQ9'',
       Question_Group_Instruction = Some [], Question = ''Notes'', Question_Abbreviation = ''notes'',
       Response_Type = ''Text Entry'', Response_Options = Some ''1-Yes''\<rparr>"
  have h: "list_all2 (\<lambda>r r'. if Response_Type r = ''Text Entry''
                           then r' = r\<lparr>Response_Options := Response_Options r'\<rparr>
                           else r' = r)
         [rS, rT] [rS, rT\<lparr>Response_Options := None\<rparr>]"
    by (simp add: rS_def rT_def)
  from text_entry_options_ignored[OF h] h
  have "list_all2 (\<lambda>r r'. if Response_Type r = ''Text Entry''
                           then r' = r\<lparr>Response_Options := Response_Options r'\<rparr>
                           else r' = r)
         [rS, rT] [rS, rT\<lparr>Response_Options := None\<rparr>] \<and>
       json_restructure [rS, rT\<lparr>Response_Options := None\<rparr>] = json_restructure [rS, rT]"
    by blast
  then show ?thesis
    unfolding rS_def rT_def Let_def .
qed

end
